theory Spec2Isabelle
  imports Complex_Main
begin

section \<open>Execution records as the dashboard receives them\<close>

text \<open>
  The statistics of \<open>frontend/app.py\<close> are computed over \<open>List[Dict[str, Any]]\<close>: every
  record is a dictionary from field names to values decoded from JSON. A value is one of
  Python's \<open>None\<close>, \<open>bool\<close>, a number, \<open>str\<close>, \<open>list\<close> or \<open>dict\<close>.
  Python's \<open>int\<close> and \<open>float\<close> are both modelled by their numerical value, a real
  number: the arithmetic of the model is exact, rounding and overflow of binary floating
  point are outside it.
\<close>

datatype json =
    JNull
  | JBool bool
  | JNum real
  | JStr string
  | JArr "json list"
  | JObj "(string \<times> json) list"

type_synonym execution = "string \<rightharpoonup> json"

datatype py_error = TypeError | ValueError | ZeroDivisionError

text \<open>Python's truth value testing, as used by \<open>if\<close> and \<open>not\<close>.\<close>

fun truthy :: "json \<Rightarrow> bool" where
  "truthy JNull = False"
| "truthy (JBool b) = b"
| "truthy (JNum r) = (r \<noteq> 0)"
| "truthy (JStr s) = (s \<noteq> [])"
| "truthy (JArr xs) = (xs \<noteq> [])"
| "truthy (JObj kvs) = (kvs \<noteq> [])"

text \<open>\<open>e.get(key, default)\<close>.\<close>

definition py_get :: "execution \<Rightarrow> string \<Rightarrow> json \<Rightarrow> json" where
  "py_get e k d = (case e k of None \<Rightarrow> d | Some v \<Rightarrow> v)"

text \<open>
  The values that Python's \<open>+\<close> accepts next to a number: numbers, and booleans
  (\<open>bool\<close> is a subclass of \<open>int\<close>, \<open>True\<close> is 1). Any other JSON value makes
  \<open>number + value\<close> raise \<open>TypeError\<close>.
\<close>

fun num_of :: "json \<Rightarrow> real option" where
  "num_of (JNum r) = Some r"
| "num_of (JBool b) = Some (if b then 1 else 0)"
| "num_of _ = None"

text \<open>
  \<open>sum(xs)\<close> starts from 0 and adds the elements from left to right; the first element
  that is not a number raises \<open>TypeError\<close>. \<open>py_sum_from acc xs\<close> is the loop with the
  running total \<open>acc\<close>.
\<close>

fun py_sum_from :: "real \<Rightarrow> json list \<Rightarrow> py_error + real" where
  "py_sum_from acc [] = Inr acc"
| "py_sum_from acc (x # xs) =
     (case num_of x of
        None \<Rightarrow> Inl TypeError
      | Some r \<Rightarrow> py_sum_from (acc + r) xs)"

definition py_sum :: "json list \<Rightarrow> py_error + real" where
  "py_sum xs = py_sum_from 0 xs"

text \<open>True division \<open>a / b\<close>: a zero divisor raises \<open>ZeroDivisionError\<close>.\<close>

definition py_div :: "real \<Rightarrow> real \<Rightarrow> py_error + real" where
  "py_div a b = (if b = 0 then Inl ZeroDivisionError else Inr (a / b))"

text \<open>
  \<open>min(xs)\<close> and \<open>max(xs)\<close>: \<open>ValueError\<close> on the empty list, otherwise the running
  extremum from the first element on. The result type of the model holds numbers only. In
  \<open>calculate_function_stats\<close> every list is first given to \<open>sum\<close>, so \<open>min\<close> and
  \<open>max\<close> are only reached with lists of numbers; on a list with another value the model
  raises the \<open>TypeError\<close> that \<open>sum\<close> has raised before.
\<close>

fun py_extremum_from :: "(real \<Rightarrow> real \<Rightarrow> real) \<Rightarrow> real \<Rightarrow> json list \<Rightarrow> py_error + real" where
  "py_extremum_from f acc [] = Inr acc"
| "py_extremum_from f acc (x # xs) =
     (case num_of x of
        None \<Rightarrow> Inl TypeError
      | Some r \<Rightarrow> py_extremum_from f (f acc r) xs)"

fun py_min :: "json list \<Rightarrow> py_error + real" where
  "py_min [] = Inl ValueError"
| "py_min (x # xs) =
     (case num_of x of
        None \<Rightarrow> Inl TypeError
      | Some r \<Rightarrow> py_extremum_from min r xs)"

fun py_max :: "json list \<Rightarrow> py_error + real" where
  "py_max [] = Inl ValueError"
| "py_max (x # xs) =
     (case num_of x of
        None \<Rightarrow> Inl TypeError
      | Some r \<Rightarrow> py_extremum_from max r xs)"

section \<open>\<open>calculate_function_stats\<close>\<close>

record runtime_counts =
  docker :: nat
  gvisor :: nat

record start_counts =
  warm :: nat
  cold :: nat

record stats =
  total_executions :: nat
  success_rate :: real
  avg_initialization_time :: real
  min_initialization_time :: real
  max_initialization_time :: real
  avg_execution_time :: real
  min_execution_time :: real
  max_execution_time :: real
  avg_total_time :: real
  min_total_time :: real
  max_total_time :: real
  runtime_distribution :: runtime_counts
  warm_vs_cold :: start_counts

text \<open>\<open>[e[k] for e in executions if k in e]\<close>\<close>

fun field_values :: "string \<Rightarrow> execution list \<Rightarrow> json list" where
  "field_values k [] = []"
| "field_values k (e # es) =
     (case e k of
        None \<Rightarrow> field_values k es
      | Some v \<Rightarrow> v # field_values k es)"

text \<open>\<open>sum(1 for e in executions if p(e))\<close>\<close>

definition count_if :: "(execution \<Rightarrow> bool) \<Rightarrow> execution list \<Rightarrow> nat" where
  "count_if p es = length (filter p es)"

text \<open>
  The three entries \<open>avg_*\<close>, \<open>min_*\<close>, \<open>max_*\<close> of one timing field, in the order the
  dictionary literal evaluates them:
  \<open>sum(ts)/len(ts) if ts else 0\<close>, \<open>min(ts) if ts else 0\<close>, \<open>max(ts) if ts else 0\<close>.
\<close>

definition time_stats :: "json list \<Rightarrow> py_error + (real \<times> real \<times> real)" where
  "time_stats ts =
     (case (if ts \<noteq> []
            then (case py_sum ts of
                    Inl err \<Rightarrow> Inl err
                  | Inr s \<Rightarrow> py_div s (real (length ts)))
            else Inr 0) of
        Inl err \<Rightarrow> Inl err
      | Inr a \<Rightarrow>
          (case (if ts \<noteq> [] then py_min ts else Inr 0) of
             Inl err \<Rightarrow> Inl err
           | Inr mn \<Rightarrow>
               (case (if ts \<noteq> [] then py_max ts else Inr 0) of
                  Inl err \<Rightarrow> Inl err
                | Inr mx \<Rightarrow> Inr (a, mn, mx))))"

definition default_stats :: stats where
  "default_stats =
     \<lparr> total_executions = 0, success_rate = 0,
       avg_initialization_time = 0, min_initialization_time = 0, max_initialization_time = 0,
       avg_execution_time = 0, min_execution_time = 0, max_execution_time = 0,
       avg_total_time = 0, min_total_time = 0, max_total_time = 0,
       runtime_distribution = \<lparr> docker = 0, gvisor = 0 \<rparr>,
       warm_vs_cold = \<lparr> warm = 0, cold = 0 \<rparr> \<rparr>"

definition calculate_function_stats :: "execution list \<Rightarrow> py_error + stats" where
  "calculate_function_stats executions =
     (if executions = [] then Inr default_stats
      else
        let successful = count_if (\<lambda>e. truthy (py_get e ''success'' (JBool False))) executions
        in
        case (if executions \<noteq> []
              then (case py_div (real successful) (real (length executions)) of
                      Inl err \<Rightarrow> Inl err
                    | Inr q \<Rightarrow> Inr (q * 100))
              else Inr 0) of
          Inl err \<Rightarrow> Inl err
        | Inr rate \<Rightarrow>
            let exec_times = field_values ''execution_time_ms'' executions;
                init_times = field_values ''initialization_time_ms'' executions;
                total_times = field_values ''total_time_ms'' executions
            in
            (case time_stats init_times of
               Inl err \<Rightarrow> Inl err
             | Inr (avg_i, min_i, max_i) \<Rightarrow>
            (case time_stats exec_times of
               Inl err \<Rightarrow> Inl err
             | Inr (avg_e, min_e, max_e) \<Rightarrow>
            (case time_stats total_times of
               Inl err \<Rightarrow> Inl err
             | Inr (avg_t, min_t, max_t) \<Rightarrow>
                 Inr \<lparr> total_executions = length executions,
                       success_rate = rate,
                       avg_initialization_time = avg_i,
                       min_initialization_time = min_i,
                       max_initialization_time = max_i,
                       avg_execution_time = avg_e,
                       min_execution_time = min_e,
                       max_execution_time = max_e,
                       avg_total_time = avg_t,
                       min_total_time = min_t,
                       max_total_time = max_t,
                       runtime_distribution =
                         \<lparr> docker = count_if (\<lambda>e. e ''runtime'' = Some (JStr ''docker'')) executions,
                           gvisor = count_if (\<lambda>e. e ''runtime'' = Some (JStr ''gvisor'')) executions \<rparr>,
                       warm_vs_cold =
                         \<lparr> warm = count_if (\<lambda>e. \<not> truthy (py_get e ''cold_start'' (JBool True))) executions,
                           cold = count_if (\<lambda>e. truthy (py_get e ''cold_start'' (JBool True))) executions \<rparr> \<rparr>))))"

section \<open>The percentage differences of \<open>show_comparison_page\<close>\<close>

text \<open>
  \<open>comparison_data["docker"]\<close> and \<open>comparison_data["gvisor"]\<close> carry the averages of one
  benchmark run. The page computes, for each metric,
  \<open>((gvisor - docker) / docker) * 100 if docker else 0\<close>.
\<close>

record runtime_stats =
  avg_init_time_ms :: real
  avg_exec_time_ms :: real
  avg_total_time_ms :: real

definition percent_of :: "py_error + real \<Rightarrow> py_error + real" where
  "percent_of q = (case q of Inl err \<Rightarrow> Inl err | Inr r \<Rightarrow> Inr (r * 100))"

definition init_diff :: "runtime_stats \<Rightarrow> runtime_stats \<Rightarrow> py_error + real" where
  "init_diff gvisor_stats docker_stats =
     (if avg_init_time_ms docker_stats \<noteq> 0
      then percent_of (py_div (avg_init_time_ms gvisor_stats - avg_init_time_ms docker_stats)
                              (avg_init_time_ms docker_stats))
      else Inr 0)"

definition exec_diff :: "runtime_stats \<Rightarrow> runtime_stats \<Rightarrow> py_error + real" where
  "exec_diff gvisor_stats docker_stats =
     (if avg_exec_time_ms docker_stats \<noteq> 0
      then percent_of (py_div (avg_exec_time_ms gvisor_stats - avg_exec_time_ms docker_stats)
                              (avg_exec_time_ms docker_stats))
      else Inr 0)"

definition total_diff :: "runtime_stats \<Rightarrow> runtime_stats \<Rightarrow> py_error + real" where
  "total_diff gvisor_stats docker_stats =
     (if avg_total_time_ms docker_stats \<noteq> 0
      then percent_of (py_div (avg_total_time_ms gvisor_stats - avg_total_time_ms docker_stats)
                              (avg_total_time_ms docker_stats))
      else Inr 0)"

section \<open>Notions of the specification\<close>

text \<open>
  The sub-sequence of the values that are numbers, and the summary
  (average, minimum, maximum) that the specification prescribes for it: all three are 0
  on the empty sequence, otherwise the arithmetic mean and the two extrema.
\<close>

fun numbers_of :: "json list \<Rightarrow> real list" where
  "numbers_of [] = []"
| "numbers_of (x # xs) =
     (case num_of x of
        None \<Rightarrow> numbers_of xs
      | Some r \<Rightarrow> r # numbers_of xs)"

definition spec_summary :: "real list \<Rightarrow> real \<times> real \<times> real" where
  "spec_summary vs =
     (if vs = [] then (0, 0, 0)
      else (sum_list vs / real (length vs), Min (set vs), Max (set vs)))"

definition all_numbers :: "json list \<Rightarrow> bool" where
  "all_numbers xs = list_all (\<lambda>x. num_of x \<noteq> None) xs"

text \<open>Every timing field that a record carries holds a number.\<close>

definition timings_numeric :: "execution list \<Rightarrow> bool" where
  "timings_numeric es =
     (all_numbers (field_values ''initialization_time_ms'' es) \<and>
      all_numbers (field_values ''execution_time_ms'' es) \<and>
      all_numbers (field_values ''total_time_ms'' es))"

text \<open>The runtime of a record is one of the two that are tallied.\<close>

definition recognized_runtime :: "execution \<Rightarrow> bool" where
  "recognized_runtime e =
     (e ''runtime'' = Some (JStr ''docker'') \<or> e ''runtime'' = Some (JStr ''gvisor''))"

text \<open>The success field of a record is there and true in Python's sense.\<close>

definition success_present_and_true :: "execution \<Rightarrow> bool" where
  "success_present_and_true e = (case e ''success'' of None \<Rightarrow> False | Some v \<Rightarrow> truthy v)"

text \<open>The cold start field of a record is there and false in Python's sense.\<close>

definition cold_start_present_and_false :: "execution \<Rightarrow> bool" where
  "cold_start_present_and_false e =
     (case e ''cold_start'' of None \<Rightarrow> False | Some v \<Rightarrow> \<not> truthy v)"

text \<open>
  The values of field \<open>k\<close> of the records that carry a numeric value for it, in the order
  of the records.
\<close>

definition spec_numeric_values :: "string \<Rightarrow> execution list \<Rightarrow> real list" where
  "spec_numeric_values k es = List.map_filter (\<lambda>e. Option.bind (e k) num_of) es"

text \<open>The three entries (average, minimum, maximum) of a result for one timing field.\<close>

definition timing_entries :: "string \<Rightarrow> stats \<Rightarrow> real \<times> real \<times> real" where
  "timing_entries k st =
     (if k = ''initialization_time_ms''
      then (avg_initialization_time st, min_initialization_time st, max_initialization_time st)
      else if k = ''execution_time_ms''
      then (avg_execution_time st, min_execution_time st, max_execution_time st)
      else (avg_total_time st, min_total_time st, max_total_time st))"

definition timing_fields :: "string set" where
  "timing_fields = {''initialization_time_ms'', ''execution_time_ms'', ''total_time_ms''}"

section \<open>Concrete inputs\<close>

text \<open>
  The two records of the specification's scenario, in the field names of the source:
  a successful warm run under docker of 10 ms and a failed cold run under gvisor of 50 ms,
  neither with an initialization or a total time. The field \<open>success\<close> is the one that
  \<open>show_metrics_page\<close> derives for each record as \<open>metric["status"] == "success"\<close>.
\<close>

definition scenario_records :: "execution list" where
  "scenario_records =
     [ [''success'' \<mapsto> JBool True, ''runtime'' \<mapsto> JStr ''docker'',
        ''cold_start'' \<mapsto> JBool False, ''execution_time_ms'' \<mapsto> JNum 10],
       [''success'' \<mapsto> JBool False, ''runtime'' \<mapsto> JStr ''gvisor'',
        ''cold_start'' \<mapsto> JBool True, ''execution_time_ms'' \<mapsto> JNum 50] ]"

text \<open>A record with nothing but a runtime, and one with an unknown runtime.\<close>

definition bare_record :: execution where
  "bare_record = [''runtime'' \<mapsto> JStr ''docker'']"

definition foreign_record :: execution where
  "foreign_record = [''runtime'' \<mapsto> JStr ''firecracker'', ''success'' \<mapsto> JStr ''yes'']"

text \<open>Benchmark averages: a docker baseline of 100 ms, gvisor at 150 ms and at 80 ms.\<close>

definition docker_100 :: runtime_stats where
  "docker_100 = \<lparr> avg_init_time_ms = 100, avg_exec_time_ms = 100, avg_total_time_ms = 100 \<rparr>"

definition gvisor_150 :: runtime_stats where
  "gvisor_150 = \<lparr> avg_init_time_ms = 150, avg_exec_time_ms = 150, avg_total_time_ms = 150 \<rparr>"

definition gvisor_80 :: runtime_stats where
  "gvisor_80 = \<lparr> avg_init_time_ms = 80, avg_exec_time_ms = 80, avg_total_time_ms = 80 \<rparr>"

text \<open>A docker baseline whose initialization average is 0 while the other two are not.\<close>

definition docker_no_init :: runtime_stats where
  "docker_no_init = \<lparr> avg_init_time_ms = 0, avg_exec_time_ms = 100, avg_total_time_ms = 100 \<rparr>"

section \<open>Python's sum, min and max on lists of numbers\<close>

lemma py_sum_from_numbers:
  "all_numbers xs \<Longrightarrow> py_sum_from acc xs = Inr (acc + sum_list (numbers_of xs))"
  by (induction xs arbitrary: acc) (auto simp: all_numbers_def)

lemma py_sum_from_not_numbers:
  "\<not> all_numbers xs \<Longrightarrow> py_sum_from acc xs = Inl TypeError"
  by (induction xs arbitrary: acc) (auto simp: all_numbers_def split: option.splits)

lemma py_extremum_from_min:
  "all_numbers xs \<Longrightarrow> py_extremum_from min acc xs = Inr (fold min (numbers_of xs) acc)"
  by (induction xs arbitrary: acc) (auto simp: all_numbers_def min.commute)

lemma py_extremum_from_max:
  "all_numbers xs \<Longrightarrow> py_extremum_from max acc xs = Inr (fold max (numbers_of xs) acc)"
  by (induction xs arbitrary: acc) (auto simp: all_numbers_def max.commute)

lemma numbers_of_Nil_iff:
  "all_numbers xs \<Longrightarrow> numbers_of xs = [] \<longleftrightarrow> xs = []"
  by (cases xs) (auto simp: all_numbers_def)

lemma length_numbers_of:
  "all_numbers xs \<Longrightarrow> length (numbers_of xs) = length xs"
  by (induction xs) (auto simp: all_numbers_def)

lemma fold_min_Min: "fold min ys (y::real) = Min (set (y # ys))"
  by (simp only: Min.set_eq_fold)

lemma fold_max_Max: "fold max ys (y::real) = Max (set (y # ys))"
  by (simp only: Max.set_eq_fold)

lemma all_numbers_Cons:
  "all_numbers (x # xs) \<longleftrightarrow> num_of x \<noteq> None \<and> all_numbers xs"
  by (simp add: all_numbers_def)

lemma py_min_numbers:
  assumes "all_numbers xs" and "xs \<noteq> []"
  shows "py_min xs = Inr (Min (set (numbers_of xs)))"
proof -
  from assms(2) obtain x xs' where xs: "xs = x # xs'" by (cases xs) auto
  with assms(1) obtain r where r: "num_of x = Some r" and rest: "all_numbers xs'"
    by (auto simp: all_numbers_Cons)
  have "py_min xs = Inr (fold min (numbers_of xs') r)"
    using xs r rest by (simp add: py_extremum_from_min)
  also have "fold min (numbers_of xs') r = Min (set (numbers_of xs))"
    using xs r by (simp only: fold_min_Min numbers_of.simps option.case)
  finally show ?thesis .
qed

lemma py_max_numbers:
  assumes "all_numbers xs" and "xs \<noteq> []"
  shows "py_max xs = Inr (Max (set (numbers_of xs)))"
proof -
  from assms(2) obtain x xs' where xs: "xs = x # xs'" by (cases xs) auto
  with assms(1) obtain r where r: "num_of x = Some r" and rest: "all_numbers xs'"
    by (auto simp: all_numbers_Cons)
  have "py_max xs = Inr (fold max (numbers_of xs') r)"
    using xs r rest by (simp add: py_extremum_from_max)
  also have "fold max (numbers_of xs') r = Max (set (numbers_of xs))"
    using xs r by (simp only: fold_max_Max numbers_of.simps option.case)
  finally show ?thesis .
qed

lemma time_stats_numbers:
  assumes "all_numbers ts"
  shows "time_stats ts = Inr (spec_summary (numbers_of ts))"
proof (cases "ts = []")
  case True
  then show ?thesis by (simp add: time_stats_def spec_summary_def)
next
  case False
  with assms have "numbers_of ts \<noteq> []" by (simp add: numbers_of_Nil_iff)
  with assms False show ?thesis
    by (simp add: time_stats_def spec_summary_def py_sum_def py_sum_from_numbers
        py_div_def py_min_numbers py_max_numbers length_numbers_of)
qed

lemma time_stats_not_numbers:
  assumes "\<not> all_numbers ts"
  shows "time_stats ts = Inl TypeError"
proof -
  from assms have "ts \<noteq> []" by (auto simp: all_numbers_def)
  with assms show ?thesis
    by (simp add: time_stats_def py_sum_def py_sum_from_not_numbers)
qed

lemma field_values_numbers:
  "numbers_of (field_values k es) = spec_numeric_values k es"
  by (induction es) (auto simp: spec_numeric_values_def map_filter_simps split: option.splits)

lemma calculate_function_stats_numeric:
  assumes "timings_numeric es" and "es \<noteq> []"
  shows "calculate_function_stats es = Inr
     \<lparr> total_executions = length es,
       success_rate =
         real (count_if (\<lambda>e. truthy (py_get e ''success'' (JBool False))) es) / real (length es) * 100,
       avg_initialization_time = fst (spec_summary (spec_numeric_values ''initialization_time_ms'' es)),
       min_initialization_time = fst (snd (spec_summary (spec_numeric_values ''initialization_time_ms'' es))),
       max_initialization_time = snd (snd (spec_summary (spec_numeric_values ''initialization_time_ms'' es))),
       avg_execution_time = fst (spec_summary (spec_numeric_values ''execution_time_ms'' es)),
       min_execution_time = fst (snd (spec_summary (spec_numeric_values ''execution_time_ms'' es))),
       max_execution_time = snd (snd (spec_summary (spec_numeric_values ''execution_time_ms'' es))),
       avg_total_time = fst (spec_summary (spec_numeric_values ''total_time_ms'' es)),
       min_total_time = fst (snd (spec_summary (spec_numeric_values ''total_time_ms'' es))),
       max_total_time = snd (snd (spec_summary (spec_numeric_values ''total_time_ms'' es))),
       runtime_distribution =
         \<lparr> docker = count_if (\<lambda>e. e ''runtime'' = Some (JStr ''docker'')) es,
           gvisor = count_if (\<lambda>e. e ''runtime'' = Some (JStr ''gvisor'')) es \<rparr>,
       warm_vs_cold =
         \<lparr> warm = count_if (\<lambda>e. \<not> truthy (py_get e ''cold_start'' (JBool True))) es,
           cold = count_if (\<lambda>e. truthy (py_get e ''cold_start'' (JBool True))) es \<rparr> \<rparr>"
  using assms
  by (simp add: calculate_function_stats_def timings_numeric_def time_stats_numbers
      field_values_numbers py_div_def Let_def case_prod_beta)

lemma not_timings_numeric_nonempty: "\<not> timings_numeric es \<Longrightarrow> es \<noteq> []"
  by (auto simp: timings_numeric_def all_numbers_def)

lemma calculate_function_stats_not_numeric:
  assumes "\<not> timings_numeric es"
  shows "calculate_function_stats es = Inl TypeError"
proof -
  have ne: "es \<noteq> []" using assms by (rule not_timings_numeric_nonempty)
  show ?thesis
  proof (cases "all_numbers (field_values ''initialization_time_ms'' es)")
    case False
    then show ?thesis using ne
      by (simp add: calculate_function_stats_def time_stats_not_numbers py_div_def Let_def)
  next
    case i: True
    show ?thesis
    proof (cases "all_numbers (field_values ''execution_time_ms'' es)")
      case False
      then show ?thesis using ne i
        by (simp add: calculate_function_stats_def time_stats_not_numbers time_stats_numbers
            py_div_def Let_def case_prod_beta)
    next
      case e: True
      with i assms have "\<not> all_numbers (field_values ''total_time_ms'' es)"
        by (simp add: timings_numeric_def)
      then show ?thesis using ne i e
        by (simp add: calculate_function_stats_def time_stats_not_numbers time_stats_numbers
            py_div_def Let_def case_prod_beta)
    qed
  qed
qed

lemma calculate_function_stats_Inr_numeric:
  "calculate_function_stats es = Inr st \<Longrightarrow> timings_numeric es"
  using calculate_function_stats_not_numeric [of es] by auto

section \<open>What \<open>calculate_function_stats\<close> returns\<close>

lemma calculate_function_stats_Inr_eq:
  assumes "calculate_function_stats es = Inr st" and "es \<noteq> []"
  shows "total_executions st = length es"
    and "success_rate st =
      real (count_if (\<lambda>e. truthy (py_get e ''success'' (JBool False))) es) / real (length es) * 100"
    and "docker (runtime_distribution st) = count_if (\<lambda>e. e ''runtime'' = Some (JStr ''docker'')) es"
    and "gvisor (runtime_distribution st) = count_if (\<lambda>e. e ''runtime'' = Some (JStr ''gvisor'')) es"
    and "warm (warm_vs_cold st) = count_if (\<lambda>e. \<not> truthy (py_get e ''cold_start'' (JBool True))) es"
    and "cold (warm_vs_cold st) = count_if (\<lambda>e. truthy (py_get e ''cold_start'' (JBool True))) es"
    and "k \<in> timing_fields \<Longrightarrow> timing_entries k st = spec_summary (spec_numeric_values k es)"
proof -
  have "timings_numeric es" using assms(1) by (rule calculate_function_stats_Inr_numeric)
  from calculate_function_stats_numeric [OF this assms(2)] assms(1)
  have st: "st = \<lparr> total_executions = length es,
       success_rate =
         real (count_if (\<lambda>e. truthy (py_get e ''success'' (JBool False))) es) / real (length es) * 100,
       avg_initialization_time = fst (spec_summary (spec_numeric_values ''initialization_time_ms'' es)),
       min_initialization_time = fst (snd (spec_summary (spec_numeric_values ''initialization_time_ms'' es))),
       max_initialization_time = snd (snd (spec_summary (spec_numeric_values ''initialization_time_ms'' es))),
       avg_execution_time = fst (spec_summary (spec_numeric_values ''execution_time_ms'' es)),
       min_execution_time = fst (snd (spec_summary (spec_numeric_values ''execution_time_ms'' es))),
       max_execution_time = snd (snd (spec_summary (spec_numeric_values ''execution_time_ms'' es))),
       avg_total_time = fst (spec_summary (spec_numeric_values ''total_time_ms'' es)),
       min_total_time = fst (snd (spec_summary (spec_numeric_values ''total_time_ms'' es))),
       max_total_time = snd (snd (spec_summary (spec_numeric_values ''total_time_ms'' es))),
       runtime_distribution =
         \<lparr> docker = count_if (\<lambda>e. e ''runtime'' = Some (JStr ''docker'')) es,
           gvisor = count_if (\<lambda>e. e ''runtime'' = Some (JStr ''gvisor'')) es \<rparr>,
       warm_vs_cold =
         \<lparr> warm = count_if (\<lambda>e. \<not> truthy (py_get e ''cold_start'' (JBool True))) es,
           cold = count_if (\<lambda>e. truthy (py_get e ''cold_start'' (JBool True))) es \<rparr> \<rparr>"
    by simp
  show "total_executions st = length es" by (simp add: st)
  show "success_rate st =
      real (count_if (\<lambda>e. truthy (py_get e ''success'' (JBool False))) es) / real (length es) * 100"
    by (simp add: st)
  show "docker (runtime_distribution st) = count_if (\<lambda>e. e ''runtime'' = Some (JStr ''docker'')) es"
    by (simp add: st)
  show "gvisor (runtime_distribution st) = count_if (\<lambda>e. e ''runtime'' = Some (JStr ''gvisor'')) es"
    by (simp add: st)
  show "warm (warm_vs_cold st) = count_if (\<lambda>e. \<not> truthy (py_get e ''cold_start'' (JBool True))) es"
    by (simp add: st)
  show "cold (warm_vs_cold st) = count_if (\<lambda>e. truthy (py_get e ''cold_start'' (JBool True))) es"
    by (simp add: st)
  show "k \<in> timing_fields \<Longrightarrow> timing_entries k st = spec_summary (spec_numeric_values k es)"
    by (auto simp: st timing_entries_def timing_fields_def)
qed

lemma calculate_function_stats_counts:
  assumes "calculate_function_stats es = Inr st"
  shows "total_executions st = length es"
    and "docker (runtime_distribution st) = count_if (\<lambda>e. e ''runtime'' = Some (JStr ''docker'')) es"
    and "gvisor (runtime_distribution st) = count_if (\<lambda>e. e ''runtime'' = Some (JStr ''gvisor'')) es"
    and "warm (warm_vs_cold st) = count_if (\<lambda>e. \<not> truthy (py_get e ''cold_start'' (JBool True))) es"
    and "cold (warm_vs_cold st) = count_if (\<lambda>e. truthy (py_get e ''cold_start'' (JBool True))) es"
proof -
  show "total_executions st = length es"
  proof (cases "es = []")
    case True with assms show ?thesis
      by (auto simp: calculate_function_stats_def default_stats_def)
  next
    case False with assms show ?thesis by (simp add: calculate_function_stats_Inr_eq)
  qed
  show "docker (runtime_distribution st) = count_if (\<lambda>e. e ''runtime'' = Some (JStr ''docker'')) es"
  proof (cases "es = []")
    case True with assms show ?thesis
      by (auto simp: calculate_function_stats_def default_stats_def count_if_def)
  next
    case False with assms show ?thesis by (simp add: calculate_function_stats_Inr_eq)
  qed
  show "gvisor (runtime_distribution st) = count_if (\<lambda>e. e ''runtime'' = Some (JStr ''gvisor'')) es"
  proof (cases "es = []")
    case True with assms show ?thesis
      by (auto simp: calculate_function_stats_def default_stats_def count_if_def)
  next
    case False with assms show ?thesis by (simp add: calculate_function_stats_Inr_eq)
  qed
  show "warm (warm_vs_cold st) = count_if (\<lambda>e. \<not> truthy (py_get e ''cold_start'' (JBool True))) es"
  proof (cases "es = []")
    case True with assms show ?thesis
      by (auto simp: calculate_function_stats_def default_stats_def count_if_def)
  next
    case False with assms show ?thesis by (simp add: calculate_function_stats_Inr_eq)
  qed
  show "cold (warm_vs_cold st) = count_if (\<lambda>e. truthy (py_get e ''cold_start'' (JBool True))) es"
  proof (cases "es = []")
    case True with assms show ?thesis
      by (auto simp: calculate_function_stats_def default_stats_def count_if_def)
  next
    case False with assms show ?thesis by (simp add: calculate_function_stats_Inr_eq)
  qed
qed


lemma calculate_function_stats_returns:
  assumes "timings_numeric es"
  shows "\<exists>st. calculate_function_stats es = Inr st"
proof (cases "es = []")
  case True
  then show ?thesis by (simp add: calculate_function_stats_def)
next
  case False
  with assms show ?thesis by (simp add: calculate_function_stats_numeric)
qed

lemma count_if_complement: "count_if p es + count_if (\<lambda>e. \<not> p e) es = length es"
  by (simp add: count_if_def sum_length_filter_compl)

lemma count_if_disjoint:
  "(\<And>e. \<not> (p e \<and> q e)) \<Longrightarrow> count_if p es + count_if q es \<le> length es"
  by (induction es) (auto simp: count_if_def)

lemma count_if_cover:
  "(\<And>e. \<not> (p e \<and> q e)) \<Longrightarrow> list_all (\<lambda>e. p e \<or> q e) es
     \<Longrightarrow> count_if p es + count_if q es = length es"
  by (induction es) (auto simp: count_if_def)

lemma count_if_le: "count_if p es \<le> length es"
  by (simp add: count_if_def)

lemma get_cold_start:
  "truthy (py_get e ''cold_start'' (JBool True)) = (\<not> cold_start_present_and_false e)"
  by (simp add: py_get_def cold_start_present_and_false_def split: option.splits)

lemma get_success:
  "truthy (py_get e ''success'' (JBool False)) = success_present_and_true e"
  by (simp add: py_get_def success_present_and_true_def split: option.splits)

lemma scenario_numeric: "timings_numeric scenario_records"
  by (simp add: timings_numeric_def all_numbers_def scenario_records_def)

lemma bare_scenario_numeric: "timings_numeric (bare_record # scenario_records)"
  by (simp add: timings_numeric_def all_numbers_def scenario_records_def bare_record_def)

lemma count_if_recognized:
  "count_if (\<lambda>e. e ''runtime'' = Some (JStr ''docker'')) es +
   count_if (\<lambda>e. e ''runtime'' = Some (JStr ''gvisor'')) es = count_if recognized_runtime es"
  by (induction es) (auto simp: count_if_def recognized_runtime_def)


section \<open>The statistics of a list of executions\<close>

text \<open>
  C1. On the two records of the scenario the function returns 2 executions, a success rate
  of 50, one execution per runtime, one warm and one cold start, and the execution time
  average 30, minimum 10 and maximum 50; the initialization and total times, which no
  record carries, are 0.
\<close>

theorem scenario_stats:
  "calculate_function_stats scenario_records = Inr
     \<lparr> total_executions = 2, success_rate = 50,
       avg_initialization_time = 0, min_initialization_time = 0, max_initialization_time = 0,
       avg_execution_time = 30, min_execution_time = 10, max_execution_time = 50,
       avg_total_time = 0, min_total_time = 0, max_total_time = 0,
       runtime_distribution = \<lparr> docker = 1, gvisor = 1 \<rparr>,
       warm_vs_cold = \<lparr> warm = 1, cold = 1 \<rparr> \<rparr>"
  by (simp add: calculate_function_stats_def scenario_records_def count_if_def py_get_def
      py_div_def time_stats_def py_sum_def)

text \<open>
  C2, as the code has it. The warm count is the number of records whose \<open>cold_start\<close>
  is there and false in Python's sense, the cold count the number of all other records.
  Adding a record without \<open>cold_start\<close>, or with \<open>cold_start\<close> true, raises the cold
  count by one and leaves the warm count; adding one with \<open>cold_start\<close> false raises the
  warm count by one and leaves the cold count.
\<close>

theorem warm_iff_cold_start_present_and_false:
  assumes "calculate_function_stats es = Inr st"
      and "calculate_function_stats (e # es) = Inr st'"
  shows "warm (warm_vs_cold st) = count_if cold_start_present_and_false es \<and>
         cold (warm_vs_cold st) = count_if (\<lambda>r. \<not> cold_start_present_and_false r) es \<and>
         (e ''cold_start'' = None \<longrightarrow>
            cold (warm_vs_cold st') = cold (warm_vs_cold st) + 1 \<and>
            warm (warm_vs_cold st') = warm (warm_vs_cold st)) \<and>
         (e ''cold_start'' = Some (JBool False) \<longrightarrow>
            warm (warm_vs_cold st') = warm (warm_vs_cold st) + 1 \<and>
            cold (warm_vs_cold st') = cold (warm_vs_cold st)) \<and>
         (e ''cold_start'' = Some (JBool True) \<longrightarrow>
            cold (warm_vs_cold st') = cold (warm_vs_cold st) + 1 \<and>
            warm (warm_vs_cold st') = warm (warm_vs_cold st))"
proof -
  have w: "warm (warm_vs_cold s) = count_if cold_start_present_and_false rs"
    and c: "cold (warm_vs_cold s) = count_if (\<lambda>r. \<not> cold_start_present_and_false r) rs"
    if "calculate_function_stats rs = Inr s" for rs s
    using that by (simp_all add: calculate_function_stats_counts get_cold_start)
  show ?thesis
    by (simp add: w [OF assms(1)] c [OF assms(1)] w [OF assms(2)] c [OF assms(2)]
        count_if_def cold_start_present_and_false_def)
qed

text \<open>
  The records of the scenario have one warm and one cold start; with a record that has
  no \<open>cold_start\<close> in front there are one warm and two cold starts.
\<close>

theorem warm_iff_cold_start_present_and_false_witness:
  "\<exists>st st'. calculate_function_stats scenario_records = Inr st \<and>
     calculate_function_stats (bare_record # scenario_records) = Inr st' \<and>
     bare_record ''cold_start'' = None \<and>
     warm (warm_vs_cold st) = 1 \<and> cold (warm_vs_cold st) = 1 \<and>
     warm (warm_vs_cold st') = 1 \<and> cold (warm_vs_cold st') = 2"
proof -
  obtain st where st: "calculate_function_stats scenario_records = Inr st"
    using calculate_function_stats_returns [OF scenario_numeric] ..
  obtain st' where st': "calculate_function_stats (bare_record # scenario_records) = Inr st'"
    using calculate_function_stats_returns [OF bare_scenario_numeric] ..
  have none: "bare_record ''cold_start'' = None" by (simp add: bare_record_def)
  have "warm (warm_vs_cold st) = 1 \<and> cold (warm_vs_cold st) = 1 \<and>
     warm (warm_vs_cold st') = 1 \<and> cold (warm_vs_cold st') = 2"
    using warm_iff_cold_start_present_and_false [OF st st'] none
    by (simp add: count_if_def scenario_records_def cold_start_present_and_false_def)
  with st st' none show ?thesis by blast
qed

text \<open>
  C2 as stated fails: a record whose \<open>cold_start\<close> is \<open>None\<close> is there and not
  explicitly false, and the code counts it warm, since \<open>not None\<close> is true.
\<close>

theorem null_cold_start_counts_warm:
  "calculate_function_stats [[''cold_start'' \<mapsto> JNull]] = Inr
     \<lparr> total_executions = 1, success_rate = 0,
       avg_initialization_time = 0, min_initialization_time = 0, max_initialization_time = 0,
       avg_execution_time = 0, min_execution_time = 0, max_execution_time = 0,
       avg_total_time = 0, min_total_time = 0, max_total_time = 0,
       runtime_distribution = \<lparr> docker = 0, gvisor = 0 \<rparr>,
       warm_vs_cold = \<lparr> warm = 1, cold = 0 \<rparr> \<rparr>"
  by (simp add: calculate_function_stats_def count_if_def py_get_def py_div_def time_stats_def)







text \<open>
  C5. The function returns when the carried timing values are numbers, and in every
  result the count of executions is the length of the input, the two runtime counts sum to
  at most that count, namely to the number of records that have one of the two runtimes,
  hence to exactly that count when every record has one of them, and the warm and cold
  counts sum to exactly that count.
\<close>

theorem distribution_sums:
  "(timings_numeric es \<longrightarrow> (\<exists>st. calculate_function_stats es = Inr st)) \<and>
   (\<forall>st. calculate_function_stats es = Inr st \<longrightarrow>
      total_executions st = length es \<and>
      docker (runtime_distribution st) + gvisor (runtime_distribution st) \<le> total_executions st \<and>
      docker (runtime_distribution st) + gvisor (runtime_distribution st) =
        count_if recognized_runtime es \<and>
      (list_all recognized_runtime es \<longrightarrow>
         docker (runtime_distribution st) + gvisor (runtime_distribution st) = total_executions st) \<and>
      warm (warm_vs_cold st) + cold (warm_vs_cold st) = total_executions st)"
proof (intro conjI allI impI)
  assume "timings_numeric es"
  then show "\<exists>st. calculate_function_stats es = Inr st"
    by (rule calculate_function_stats_returns)
next
  fix st assume st: "calculate_function_stats es = Inr st"
  note counts = calculate_function_stats_counts [OF st]
  show "total_executions st = length es" by (rule counts)
  show "docker (runtime_distribution st) + gvisor (runtime_distribution st) \<le> total_executions st"
    using count_if_disjoint [of "\<lambda>e. e ''runtime'' = Some (JStr ''docker'')"
        "\<lambda>e. e ''runtime'' = Some (JStr ''gvisor'')" es]
    by (simp add: counts)
  show "docker (runtime_distribution st) + gvisor (runtime_distribution st) =
      count_if recognized_runtime es"
    by (simp add: counts count_if_recognized)
  show "warm (warm_vs_cold st) + cold (warm_vs_cold st) = total_executions st"
    using count_if_complement [of "\<lambda>e. truthy (py_get e ''cold_start'' (JBool True))" es]
    by (simp add: counts)
  assume "list_all recognized_runtime es"
  then have "list_all (\<lambda>e. e ''runtime'' = Some (JStr ''docker'') \<or>
      e ''runtime'' = Some (JStr ''gvisor'')) es"
    by (simp add: recognized_runtime_def [abs_def])
  with count_if_cover [of "\<lambda>e. e ''runtime'' = Some (JStr ''docker'')"
      "\<lambda>e. e ''runtime'' = Some (JStr ''gvisor'')" es]
  show "docker (runtime_distribution st) + gvisor (runtime_distribution st) = total_executions st"
    by (simp add: counts)
qed

text \<open>
  The scenario's records: 2 executions, runtime counts summing to 2, warm and cold
  counts summing to 2.
\<close>

theorem distribution_sums_witness:
  "timings_numeric scenario_records \<and> list_all recognized_runtime scenario_records \<and>
   (\<exists>st. calculate_function_stats scenario_records = Inr st \<and>
      total_executions st = 2 \<and>
      docker (runtime_distribution st) + gvisor (runtime_distribution st) = 2 \<and>
      warm (warm_vs_cold st) + cold (warm_vs_cold st) = 2)"
proof -
  have r: "list_all recognized_runtime scenario_records"
    by (simp add: recognized_runtime_def scenario_records_def)
  have l: "length scenario_records = 2" by (simp add: scenario_records_def)
  from distribution_sums [of scenario_records] scenario_numeric
  obtain st where st: "calculate_function_stats scenario_records = Inr st" by blast
  with distribution_sums [of scenario_records] r l
  have "total_executions st = 2 \<and>
      docker (runtime_distribution st) + gvisor (runtime_distribution st) = 2 \<and>
      warm (warm_vs_cold st) + cold (warm_vs_cold st) = 2"
    by simp
  with st r scenario_numeric show ?thesis by blast
qed

text \<open>
  C8. On a non-empty list the function returns when the carried timing values are
  numbers, and in every result the success rate is exactly 100 times the number of
  successful records divided by the count of executions, and lies between 0 and 100.
\<close>

theorem success_rate_formula:
  assumes "es \<noteq> []"
  shows "(timings_numeric es \<longrightarrow> (\<exists>st. calculate_function_stats es = Inr st)) \<and>
   (\<forall>st. calculate_function_stats es = Inr st \<longrightarrow>
      success_rate st =
        100 * real (count_if (\<lambda>e. truthy (py_get e ''success'' (JBool False))) es) /
          real (total_executions st) \<and>
      total_executions st = length es \<and>
      0 \<le> success_rate st \<and> success_rate st \<le> 100)"
proof (intro conjI allI impI)
  assume "timings_numeric es"
  then show "\<exists>st. calculate_function_stats es = Inr st"
    by (rule calculate_function_stats_returns)
next
  fix st assume st: "calculate_function_stats es = Inr st"
  let ?n = "count_if (\<lambda>e. truthy (py_get e ''success'' (JBool False))) es"
  have len: "total_executions st = length es"
    using st assms by (rule calculate_function_stats_Inr_eq)
  have rate: "success_rate st = real ?n / real (length es) * 100"
    using st assms by (rule calculate_function_stats_Inr_eq)
  have pos: "0 < real (length es)" using assms by simp
  have le: "real ?n \<le> real (length es)" by (simp add: count_if_le)
  show "total_executions st = length es" by (rule len)
  show "success_rate st = 100 * real ?n / real (total_executions st)"
    by (simp add: rate len)
  show "0 \<le> success_rate st" by (simp add: rate)
  show "success_rate st \<le> 100" using pos le by (simp add: rate divide_le_eq)
qed

text \<open>
  One successful record out of three: the success rate is a third of 100, unrounded.
\<close>

theorem success_rate_formula_witness:
  "[foreign_record, bare_record, bare_record] \<noteq> [] \<and>
   (\<exists>st. calculate_function_stats [foreign_record, bare_record, bare_record] = Inr st \<and>
      success_rate st = 100 / 3)"
proof -
  let ?es = "[foreign_record, bare_record, bare_record]"
  have ne: "?es \<noteq> []" by simp
  have num: "timings_numeric ?es"
    by (simp add: timings_numeric_def all_numbers_def foreign_record_def bare_record_def)
  note T = success_rate_formula [OF ne]
  from T num obtain st where st: "calculate_function_stats ?es = Inr st" by blast
  with T have "success_rate st =
        100 * real (count_if (\<lambda>e. truthy (py_get e ''success'' (JBool False))) ?es) /
          real (total_executions st) \<and> total_executions st = length ?es" by blast
  then have "success_rate st = 100 / 3"
    by (simp add: count_if_def py_get_def foreign_record_def bare_record_def)
  with st show ?thesis by blast
qed

text \<open>
  C9. On the empty list the function returns the default result: no execution, success
  rate 0, the nine timing entries 0, both runtime counts 0, no warm and no cold start.
\<close>

theorem empty_stats:
  "calculate_function_stats [] = Inr
     \<lparr> total_executions = 0, success_rate = 0,
       avg_initialization_time = 0, min_initialization_time = 0, max_initialization_time = 0,
       avg_execution_time = 0, min_execution_time = 0, max_execution_time = 0,
       avg_total_time = 0, min_total_time = 0, max_total_time = 0,
       runtime_distribution = \<lparr> docker = 0, gvisor = 0 \<rparr>,
       warm_vs_cold = \<lparr> warm = 0, cold = 0 \<rparr> \<rparr>"
  by (simp add: calculate_function_stats_def default_stats_def)

text \<open>
  C10. The success rate of a result counts the records whose \<open>success\<close> is there and
  true in Python's sense; a record without \<open>success\<close> adds to the count of executions
  and not to the successful ones.
\<close>

theorem missing_success_counts_unsuccessful:
  "(\<forall>st. es \<noteq> [] \<and> calculate_function_stats es = Inr st \<longrightarrow>
      success_rate st = 100 * real (count_if success_present_and_true es) / real (length es)) \<and>
   (\<forall>st. e ''success'' = None \<and> calculate_function_stats (e # es) = Inr st \<longrightarrow>
      success_rate st = 100 * real (count_if success_present_and_true es) / real (length es + 1))"
proof -
  have r: "success_rate st = 100 * real (count_if success_present_and_true rs) / real (length rs)"
    if "rs \<noteq> []" and "calculate_function_stats rs = Inr st" for rs st
    using calculate_function_stats_Inr_eq(2) [OF that(2) that(1)] by (simp add: get_success)
  have "success_rate st = 100 * real (count_if success_present_and_true es) / real (length es + 1)"
    if "e ''success'' = None" and "calculate_function_stats (e # es) = Inr st" for st
    using r [OF _ that(2)] that(1) by (simp add: count_if_def success_present_and_true_def)
  with r show ?thesis by blast
qed

text \<open>
  A record without \<open>success\<close> in front of the scenario's records: one success in
  three executions.
\<close>

theorem missing_success_counts_unsuccessful_witness:
  "bare_record ''success'' = None \<and>
   (\<exists>st. calculate_function_stats (bare_record # scenario_records) = Inr st \<and>
      success_rate st = 100 / 3)"
proof -
  have none: "bare_record ''success'' = None" by (simp add: bare_record_def)
  obtain st where st: "calculate_function_stats (bare_record # scenario_records) = Inr st"
    using calculate_function_stats_returns [OF bare_scenario_numeric] ..
  with missing_success_counts_unsuccessful [of scenario_records bare_record] none
  have "success_rate st =
      100 * real (count_if success_present_and_true scenario_records) / real (length scenario_records + 1)"
    by blast
  then have "success_rate st = 100 / 3"
    by (simp add: count_if_def success_present_and_true_def scenario_records_def)
  with st none show ?thesis by blast
qed

section \<open>The percentage differences of a benchmark\<close>

text \<open>
  C6. For each metric with a docker average other than 0 the difference is
  100 times (gvisor average minus docker average) divided by the docker average; over a
  positive docker average it is positive exactly when gvisor is slower. A docker average
  of 100 gives 50 for a gvisor average of 150 and -20 for one of 80.
\<close>

theorem percentage_delta:
  "(avg_init_time_ms d \<noteq> 0 \<longrightarrow>
      init_diff g d = Inr (100 * (avg_init_time_ms g - avg_init_time_ms d) / avg_init_time_ms d)) \<and>
   (avg_exec_time_ms d \<noteq> 0 \<longrightarrow>
      exec_diff g d = Inr (100 * (avg_exec_time_ms g - avg_exec_time_ms d) / avg_exec_time_ms d)) \<and>
   (avg_total_time_ms d \<noteq> 0 \<longrightarrow>
      total_diff g d = Inr (100 * (avg_total_time_ms g - avg_total_time_ms d) / avg_total_time_ms d)) \<and>
   (0 < avg_init_time_ms d \<longrightarrow>
      (\<exists>r. init_diff g d = Inr r \<and> (0 < r \<longleftrightarrow> avg_init_time_ms d < avg_init_time_ms g))) \<and>
   (0 < avg_exec_time_ms d \<longrightarrow>
      (\<exists>r. exec_diff g d = Inr r \<and> (0 < r \<longleftrightarrow> avg_exec_time_ms d < avg_exec_time_ms g))) \<and>
   (0 < avg_total_time_ms d \<longrightarrow>
      (\<exists>r. total_diff g d = Inr r \<and> (0 < r \<longleftrightarrow> avg_total_time_ms d < avg_total_time_ms g))) \<and>
   init_diff gvisor_150 docker_100 = Inr 50 \<and>
   exec_diff gvisor_150 docker_100 = Inr 50 \<and>
   total_diff gvisor_150 docker_100 = Inr 50 \<and>
   init_diff gvisor_80 docker_100 = Inr (- 20) \<and>
   exec_diff gvisor_80 docker_100 = Inr (- 20) \<and>
   total_diff gvisor_80 docker_100 = Inr (- 20)"
  by (simp add: init_diff_def exec_diff_def total_diff_def percent_of_def py_div_def
      docker_100_def gvisor_150_def gvisor_80_def zero_less_divide_iff)

text \<open>
  A docker baseline with the execution and total averages 100.
\<close>

theorem percentage_delta_witness:
  "avg_init_time_ms docker_no_init = 0 \<and> avg_exec_time_ms docker_no_init \<noteq> 0 \<and>
   0 < avg_total_time_ms docker_no_init \<and>
   exec_diff gvisor_150 docker_no_init = Inr 50 \<and>
   total_diff gvisor_80 docker_no_init = Inr (- 20) \<and>
   (\<exists>r. total_diff gvisor_150 docker_no_init = Inr r \<and> 0 < r)"
  using percentage_delta [of docker_no_init gvisor_150] percentage_delta [of docker_no_init gvisor_80]
  by (simp add: docker_no_init_def gvisor_150_def gvisor_80_def)

text \<open>
  C7. For each metric whose docker average is 0 the difference is 0, whatever the other
  metrics are, and none of the three differences ever raises an error.
\<close>

theorem zero_baseline_delta:
  "(avg_init_time_ms d = 0 \<longrightarrow> init_diff g d = Inr 0) \<and>
   (avg_exec_time_ms d = 0 \<longrightarrow> exec_diff g d = Inr 0) \<and>
   (avg_total_time_ms d = 0 \<longrightarrow> total_diff g d = Inr 0) \<and>
   (\<exists>r. init_diff g d = Inr r) \<and> (\<exists>r. exec_diff g d = Inr r) \<and> (\<exists>r. total_diff g d = Inr r)"
  by (simp add: init_diff_def exec_diff_def total_diff_def percent_of_def py_div_def)

text \<open>
  A docker baseline whose initialization average alone is 0: the initialization
  difference is 0, the execution difference is still computed.
\<close>

theorem zero_baseline_delta_witness:
  "avg_init_time_ms docker_no_init = 0 \<and> init_diff gvisor_150 docker_no_init = Inr 0 \<and>
   avg_exec_time_ms docker_no_init = 100 \<and> exec_diff gvisor_150 docker_no_init = Inr 50"
proof -
  have z: "avg_init_time_ms docker_no_init = 0" by (simp add: docker_no_init_def)
  have "init_diff gvisor_150 docker_no_init = Inr 0"
    using zero_baseline_delta [of docker_no_init gvisor_150] z by simp
  moreover have "exec_diff gvisor_150 docker_no_init = Inr 50"
    by (simp add: exec_diff_def percent_of_def py_div_def docker_no_init_def gvisor_150_def)
  ultimately show ?thesis using z by (simp add: docker_no_init_def)
qed

end
